theory Spec2Isabelle
  imports Complex_Main
begin

section \<open>Python values, errors and list indexing\<close>

text \<open>
  The library under study (\<^verbatim>\<open>dataManipulation.py\<close>) computes with Python numbers.
  Numbers are modelled as mathematical reals: Python's \<^verbatim>\<open>/\<close> is real division,
  \<^verbatim>\<open>int(x)\<close> truncates towards zero, \<^verbatim>\<open>x % 1\<close> is the fractional part,
  \<^verbatim>\<open>math.floor\<close> is the floor and \<^verbatim>\<open>math.log10\<close> the logarithm to base ten.
  Rounding of binary floating point is not part of the model.

  Every \<^verbatim>\<open>raise\<close> of the source, and every exception the interpreter raises on its
  behalf (an index out of range, a division by zero, a logarithm of a non-positive
  number, arithmetic on \<^verbatim>\<open>None\<close>), is a value of the type \<open>error\<close>. All \<^verbatim>\<open>ValueError\<close>s of the source are one
  Python class; the constructor argument records which message was raised.
\<close>

datatype value_error =
    NoValuesAboveThreshold
  | XYLengthMismatch
  | DatasetsLengthMismatch
  | NoDataEntered
  | TooFewDimensions nat
  | DataLengthMismatch nat nat nat
  | MaxXNotProvided
  | MathDomainError
  | EmptySequence
  | UnpackMismatch

datatype error = ValueError value_error | ZeroDivisionError | IndexError | TypeError

text \<open>Python's \<^verbatim>\<open>int(x)\<close> on a float: truncation towards zero.\<close>

definition py_int :: "real \<Rightarrow> int" where
  "py_int v = (if 0 \<le> v then \<lfloor>v\<rfloor> else \<lceil>v\<rceil>)"

text \<open>Python's \<^verbatim>\<open>xs[i]\<close>: a negative index counts from the end, and an index outside
  the list raises \<^verbatim>\<open>IndexError\<close>.\<close>

definition py_get :: "'a list \<Rightarrow> int \<Rightarrow> error + 'a" where
  "py_get xs i =
     (if 0 \<le> i \<and> i < int (length xs) then Inr (xs ! nat i)
      else if i < 0 \<and> - int (length xs) \<le> i then Inr (xs ! nat (int (length xs) + i))
      else Inl IndexError)"

text \<open>Python's true division \<^verbatim>\<open>a / b\<close>.\<close>

definition py_div :: "real \<Rightarrow> real \<Rightarrow> error + real" where
  "py_div a b = (if b = 0 then Inl ZeroDivisionError else Inr (a / b))"

text \<open>\<^verbatim>\<open>math.log10\<close> followed by \<^verbatim>\<open>math.floor\<close>; the logarithm raises
  \<^verbatim>\<open>ValueError("math domain error")\<close> on a non-positive argument.\<close>

definition floor_log10 :: "real \<Rightarrow> error + int" where
  "floor_log10 v = (if v \<le> 0 then Inl (ValueError MathDomainError) else Inr \<lfloor>log 10 v\<rfloor>)"

section \<open>Free-standing statistics functions\<close>

text \<open>\<^verbatim>\<open>median(data)\<close>: sorts a copy and reads the middle element, or the two middle
  elements of a list of even length.\<close>

definition median :: "real list \<Rightarrow> error + real" where
  "median dat =
     (let srt = sort dat;
          len = real (length srt)
      in if length srt mod 2 = 0 then
           (case py_get srt (py_int (len / 2 - 0.5)) of
              Inl e \<Rightarrow> Inl e
            | Inr a \<Rightarrow>
               (case py_get srt (py_int (len / 2 + 0.5)) of
                  Inl e \<Rightarrow> Inl e
                | Inr b \<Rightarrow> Inr ((a + b) / 2)))
         else py_get srt (py_int (len / 2)))"

section \<open>DiscreteData\<close>

text \<open>The class \<^verbatim>\<open>DiscreteData\<close>. The fields \<^verbatim>\<open>size\<close> and \<^verbatim>\<open>median\<close> carry a
  suffix, since both names are taken (by the HOL size function and by the function
  above).\<close>

record DiscreteData =
  data :: "real list"
  label :: string
  units :: string
  sizeD :: nat
  medianD :: real

definition DiscreteData_init :: "real list \<Rightarrow> string \<Rightarrow> string \<Rightarrow> error + DiscreteData" where
  "DiscreteData_init dat lab un =
     (case median dat of
        Inl e \<Rightarrow> Inl e
      | Inr m \<Rightarrow> Inr \<lparr>data = dat, label = lab, units = un, sizeD = length dat, medianD = m\<rparr>)"

text \<open>\<^verbatim>\<open>quarterOne\<close> and \<^verbatim>\<open>quarterThree\<close>: \<open>n\<close> is the length of the sorted copy and
  \<open>q = (n - 1) / 4\<close>; the test \<^verbatim>\<open>q % 1 == 0\<close> is \<open>frac q = 0\<close>.\<close>

definition quarterOne :: "DiscreteData \<Rightarrow> error + real" where
  "quarterOne self =
     (let tempData = sort (data self);
          n = int (length tempData);
          q = real_of_int (n - 1) / 4
      in if frac q = 0 then py_get tempData (py_int (q + 0.5))
         else
           (case py_get tempData (py_int q) of
              Inl e \<Rightarrow> Inl e
            | Inr a \<Rightarrow>
               (case py_get tempData (py_int q + 1) of
                  Inl e \<Rightarrow> Inl e
                | Inr b \<Rightarrow> Inr ((a + b) / 2))))"

definition quarterThree :: "DiscreteData \<Rightarrow> error + real" where
  "quarterThree self =
     (let tempData = sort (data self);
          n = int (length tempData);
          q = real_of_int (n - 1) / 4
      in if frac q = 0 then py_get tempData (3 * py_int (q + 0.5))
         else
           (case py_get tempData (3 * py_int q) of
              Inl e \<Rightarrow> Inl e
            | Inr a \<Rightarrow>
               (case py_get tempData (3 * py_int q + 1) of
                  Inl e \<Rightarrow> Inl e
                | Inr b \<Rightarrow> Inr ((a + b) / 2))))"

text \<open>\<^verbatim>\<open>value_before_threshold(bound, values, belowThreshold)\<close>. The \<^verbatim>\<open>for\<close> loop
  over \<^verbatim>\<open>enumerate(valuesCopy)\<close> returns at the first value above the bound, reading
  index \<^verbatim>\<open>i - belowThreshold\<close> (a Python \<^verbatim>\<open>bool\<close> counts as 0 or 1); \<open>None\<close> says
  that the loop ran to its end.\<close>

fun threshold_loop :: "real \<Rightarrow> real list \<Rightarrow> bool \<Rightarrow> real list \<Rightarrow> nat \<Rightarrow> (error + real) option" where
  "threshold_loop bound valuesCopy belowThreshold [] i = None"
| "threshold_loop bound valuesCopy belowThreshold (v # rest) i =
     (if bound < v then Some (py_get valuesCopy (int i - (if belowThreshold then 1 else 0)))
      else threshold_loop bound valuesCopy belowThreshold rest (i + 1))"

definition value_before_threshold :: "real \<Rightarrow> real list \<Rightarrow> bool \<Rightarrow> error + real" where
  "value_before_threshold bound vals belowThreshold =
     (let valuesCopy = sort vals
      in case threshold_loop bound valuesCopy belowThreshold valuesCopy 0 of
           Some r \<Rightarrow> r
         | None \<Rightarrow>
             if belowThreshold then py_get valuesCopy (- 1)
             else Inl (ValueError NoValuesAboveThreshold))"




text \<open>\<^verbatim>\<open>next_lowest_decimultiple(upperBound, multiples)\<close>. The loop over the multiples,
  sorted in descending order, stops at the first one that the normalised bound reaches;
  \<^verbatim>\<open>decimultiple\<close> keeps its initial value 1 when there is none.\<close>

fun first_multiple :: "real \<Rightarrow> real list \<Rightarrow> real" where
  "first_multiple ub [] = 1"
| "first_multiple ub (number # rest) = (if number \<le> ub then number else first_multiple ub rest)"

definition next_lowest_decimultiple :: "real \<Rightarrow> real list \<Rightarrow> error + real" where
  "next_lowest_decimultiple upperBound multiples =
     (case floor_log10 upperBound of
        Inl e \<Rightarrow> Inl e
      | Inr powerOfTen \<Rightarrow>
          Inr (first_multiple (upperBound / (10 powi powerOfTen)) (rev (sort multiples))
               * (10 powi powerOfTen)))"

section \<open>MultivariableDiscreteData\<close>

record MultivariableDiscreteData =
  titleM :: string
  numDimensions :: nat
  dataM :: "DiscreteData list"
  numPoints :: nat



section \<open>Colours, fonts and drawing commands\<close>

text \<open>
  The drawing surface (pygame) is outside the library. A call into it is recorded as a
  drawing command, in the order in which the calls are made; a font is the pair of the
  name and the size given to \<^verbatim>\<open>pygame.font.SysFont\<close>. The text of a tick label is
  \<^verbatim>\<open>str\<close> of a number; the command carries the number.
\<close>

type_synonym colour = "real \<times> real \<times> real"
type_synonym point = "real \<times> real"
type_synonym font = "string \<times> int"

datatype text_label = Str string | Num real

datatype draw_cmd =
    DrawRect colour real real real real
  | DrawLine colour point point real
  | DrawCircle colour point real real
  | DrawText text_label point colour font real

text \<open>How a drawing method ends: it returns, it raises, or one of its \<^verbatim>\<open>while\<close> loops
  never ends.\<close>

datatype outcome = Returned | Raised error | Diverged

definition complementary :: "colour \<Rightarrow> colour" where
  "complementary c = (case c of (r, g, b) \<Rightarrow> (255 - r, 255 - g, 255 - b))"

definition valid_rgb_colour :: "real list \<Rightarrow> bool" where
  "valid_rgb_colour c = (length c = 3 \<and> list_all (\<lambda>n. 0 \<le> n \<and> n \<le> 255) c)"

text \<open>\<^verbatim>\<open>round(x, ndigits)\<close> rounds half to even; \<^verbatim>\<open>sig_figs(x, precision)\<close>.\<close>

definition py_round :: "real \<Rightarrow> int \<Rightarrow> real" where
  "py_round v ndigits =
     (let s = 10 powi ndigits;
          f = \<lfloor>v * s\<rfloor>;
          d = v * s - of_int f
      in of_int (if d < 1 / 2 then f else if 1 / 2 < d then f + 1
                 else if even f then f else f + 1) / s)"

definition sig_figs :: "real \<Rightarrow> int \<Rightarrow> real" where
  "sig_figs v precision =
     (if v = 0 then 0 else py_round v (- \<lfloor>log 10 \<bar>v\<bar>\<rfloor> + (precision - 1)))"


section \<open>Graph\<close>

text \<open>
  The class \<^verbatim>\<open>Graph\<close>. The attributes \<^verbatim>\<open>x\<close> and \<^verbatim>\<open>y\<close> are the fields \<open>posX\<close> and
  \<open>posY\<close>. \<^verbatim>\<open>width\<close> and \<^verbatim>\<open>height\<close> may be \<^verbatim>\<open>None\<close> until \<^verbatim>\<open>set_dimensions\<close> runs, and
  \<^verbatim>\<open>xScale\<close> and \<^verbatim>\<open>originX\<close> stay \<^verbatim>\<open>None\<close> on a categorical x axis. The other derived
  attributes are read only after \<^verbatim>\<open>set_dimensions\<close> has assigned them. The subclasses
  extend the record, so the methods of \<^verbatim>\<open>Graph\<close> are defined on every extension.
\<close>

record Graph =
  maxY :: real
  categoricalXAxis :: bool
  maxX :: real
  minY :: real
  minX :: real
  xCategoricalLabels :: "string list option"
  posX :: real
  posY :: real
  width :: "real option"
  height :: "real option"
  graphSize :: real
  borderWidth :: real
  showXAxisLabel :: bool
  showYAxisLabel :: bool
  bgColour :: colour
  primaryColour :: colour
  borderColour :: colour
  title :: string
  xAxisLabel :: string
  yAxisLabel :: string
  fontName :: string
  axisMarkerDensity :: real
  effectiveX :: real
  effectiveY :: real
  effectiveWidth :: real
  effectiveHeight :: real
  graphX :: real
  graphY :: real
  graphWidth :: real
  graphHeight :: real
  originX :: "real option"
  originY :: real
  xScale :: "real option"
  yScale :: real
  dimensionsSet :: bool

text \<open>\<^verbatim>\<open>set_dimensions(window)\<close>; the window is given by its width and height. A division
  by zero leaves the method before \<^verbatim>\<open>dimensionsSet\<close> is set.\<close>

definition set_dimensions :: "'a Graph_scheme \<Rightarrow> real \<times> real \<Rightarrow> error + 'a Graph_scheme" where
  "set_dimensions self window =
     (let w = (case width self of Some v \<Rightarrow> v | None \<Rightarrow> fst window);
          h = (case height self of Some v \<Rightarrow> v | None \<Rightarrow> snd window);
          eX = posX self + borderWidth self;
          eY = posY self + borderWidth self;
          eW = w - 2 * borderWidth self;
          eH = h - 2 * borderWidth self;
          gW = graphSize self * eW;
          gH = graphSize self * eH;
          gX = eX + (eW - gW) / 2;
          gY = eY + (eH - gH) / 2
      in case (if \<not> categoricalXAxis self
               then (case py_div gW (maxX self - minX self) of
                       Inl e \<Rightarrow> Inl e
                     | Inr xs \<Rightarrow> Inr (Some xs, Some (gX - xs * minX self)))
               else Inr (xScale self, originX self)) of
           Inl e \<Rightarrow> Inl e
         | Inr (xs, oX) \<Rightarrow>
            (case py_div gH (maxY self - minY self) of
               Inl e \<Rightarrow> Inl e
             | Inr ys \<Rightarrow>
                 Inr (self\<lparr>width := Some w, height := Some h,
                           effectiveX := eX, effectiveY := eY,
                           effectiveWidth := eW, effectiveHeight := eH,
                           graphX := gX, graphY := gY, graphWidth := gW, graphHeight := gH,
                           originX := oX, originY := gY + gH + ys * minY self,
                           xScale := xs, yScale := ys, dimensionsSet := True\<rparr>)))"

text \<open>\<^verbatim>\<open>Graph.__init__\<close>: the arguments are given as a record whose derived attributes
  are not read; the two optional colours default to the complement of the background.\<close>

definition Graph_init ::
  "'a Graph_scheme \<Rightarrow> colour option \<Rightarrow> colour option \<Rightarrow> error + 'a Graph_scheme" where
  "Graph_init args primary border =
     (if \<not> categoricalXAxis args \<and> maxX args = 0 then Inl (ValueError MaxXNotProvided)
      else
        (let self = args\<lparr>primaryColour :=
                            (case primary of Some c \<Rightarrow> c | None \<Rightarrow> complementary (bgColour args)),
                         borderColour :=
                            (case border of Some c \<Rightarrow> c | None \<Rightarrow> complementary (bgColour args)),
                         originX := None, xScale := None, dimensionsSet := False\<rparr>
         in if width self \<noteq> None \<and> height self \<noteq> None then set_dimensions self (0, 0)
            else Inr self))"

text \<open>The position at which \<^verbatim>\<open>Scatterplot.draw\<close> puts the data point \<open>(xv, yv)\<close>:
  \<^verbatim>\<open>(self.originX + xPointVal * self.xScale, self.originY - yPointVal * self.yScale)\<close>.\<close>

definition point_position :: "'a Graph_scheme \<Rightarrow> real \<Rightarrow> real \<Rightarrow> error + point" where
  "point_position self xv yv =
     (case (originX self, xScale self) of
        (Some oX, Some xs) \<Rightarrow> Inr (oX + xv * xs, originY self - yv * yScale self)
      | _ \<Rightarrow> Inl TypeError)"

definition drawBorderAndBackground :: "'a Graph_scheme \<Rightarrow> error + draw_cmd list" where
  "drawBorderAndBackground self =
     (case (width self, height self) of
        (Some w, Some h) \<Rightarrow>
          Inr [DrawRect (borderColour self) (posX self) (posY self) w h,
               DrawRect (bgColour self) (effectiveX self) (effectiveY self)
                        (effectiveWidth self) (effectiveHeight self)]
      | _ \<Rightarrow> Inl TypeError)"

text \<open>The axes, the title and the two axis labels of \<^verbatim>\<open>Graph.draw\<close>.\<close>

definition draw_axes_and_title :: "'a Graph_scheme \<Rightarrow> draw_cmd list" where
  "draw_axes_and_title self =
     (let gap = effectiveHeight self - graphHeight self;
          axisLabelFont = (fontName self, py_int (0.5 * gap / 2));
          titleFont = (fontName self, py_int (0.8 * gap / 2))
      in [DrawLine (primaryColour self) (graphX self, graphY self + graphHeight self)
                   (graphX self + graphWidth self, graphY self + graphHeight self) 1,
          DrawLine (primaryColour self) (graphX self, graphY self + graphHeight self)
                   (graphX self, graphY self) 1,
          DrawText (Str (title self))
                   (effectiveX self + effectiveWidth self / 2, effectiveY self + gap / 4)
                   (primaryColour self) titleFont 0]
         @ (if showXAxisLabel self
            then [DrawText (Str (xAxisLabel self))
                    (graphX self + graphWidth self / 2,
                     graphY self + graphHeight self + 0.35 * gap)
                    (primaryColour self) axisLabelFont 0]
            else [])
         @ (if showYAxisLabel self
            then [DrawText (Str (yAxisLabel self))
                    (graphX self - 0.35 * (effectiveWidth self - graphWidth self),
                     graphY self + graphHeight self / 2)
                    (primaryColour self) axisLabelFont 90]
            else []))"

text \<open>One pass of the loop over the x axis marks: the main mark, its label and the half
  mark.\<close>

definition x_mark :: "'a Graph_scheme \<Rightarrow> real \<Rightarrow> real \<Rightarrow> real \<Rightarrow> nat \<Rightarrow> draw_cmd list" where
  "x_mark self axisMarkLength deltaXAxisLabel xAxisLabelSpacing labelNum =
     (let markPosition = graphX self + real labelNum * xAxisLabelSpacing;
          base = graphY self + graphHeight self;
          axisMarkerFont = (fontName self,
                            py_int (0.35 * (effectiveHeight self - graphHeight self) / 2))
      in [DrawLine (primaryColour self) (markPosition, base - axisMarkLength)
                   (markPosition, base + axisMarkLength) 1,
          DrawText (Num (sig_figs (real labelNum * deltaXAxisLabel + minX self) 2))
                   (markPosition, base + (effectiveHeight self - graphHeight self) / 6)
                   (primaryColour self) axisMarkerFont 0]
         @ (if (real labelNum + 0.5) * xAxisLabelSpacing \<le> graphWidth self
            then [DrawLine (primaryColour self)
                    (markPosition + 0.5 * xAxisLabelSpacing, base - axisMarkLength / 2)
                    (markPosition + 0.5 * xAxisLabelSpacing, base + axisMarkLength / 2) 1]
            else []))"

definition y_mark :: "'a Graph_scheme \<Rightarrow> real \<Rightarrow> real \<Rightarrow> real \<Rightarrow> nat \<Rightarrow> draw_cmd list" where
  "y_mark self axisMarkLength deltaYAxisLabel yAxisLabelSpacing labelNum =
     (let markPosition = graphY self + graphHeight self - real labelNum * yAxisLabelSpacing;
          axisMarkerFont = (fontName self,
                            py_int (0.35 * (effectiveHeight self - graphHeight self) / 2))
      in [DrawLine (primaryColour self) (graphX self - axisMarkLength, markPosition)
                   (graphX self + axisMarkLength, markPosition) 1,
          DrawText (Num (sig_figs (real labelNum * deltaYAxisLabel + minY self) 2))
                   (graphX self - (effectiveWidth self - graphWidth self) / 6, markPosition)
                   (primaryColour self) axisMarkerFont 0]
         @ (if (real labelNum + 0.5) * yAxisLabelSpacing \<le> graphHeight self
            then [DrawLine (primaryColour self)
                    (graphX self - axisMarkLength / 2, markPosition - 0.5 * yAxisLabelSpacing)
                    (graphX self + axisMarkLength / 2, markPosition - 0.5 * yAxisLabelSpacing) 1]
            else []))"

text \<open>The two \<^verbatim>\<open>while\<close> loops over \<^verbatim>\<open>labelNum\<close>. Neither ends when the spacing is not
  positive and the plot extent is not negative, so they are partial functions: \<open>None\<close>
  is the loop that runs forever.\<close>

partial_function (option) x_marks_loop ::
  "'a Graph_scheme \<Rightarrow> real \<Rightarrow> real \<Rightarrow> real \<Rightarrow> nat \<Rightarrow> draw_cmd list \<Rightarrow> draw_cmd list option" where
  "x_marks_loop self axisMarkLength deltaXAxisLabel xAxisLabelSpacing labelNum drawn =
     (if real labelNum * xAxisLabelSpacing \<le> graphWidth self
      then x_marks_loop self axisMarkLength deltaXAxisLabel xAxisLabelSpacing (labelNum + 1)
             (drawn @ x_mark self axisMarkLength deltaXAxisLabel xAxisLabelSpacing labelNum)
      else Some drawn)"

partial_function (option) y_marks_loop ::
  "'a Graph_scheme \<Rightarrow> real \<Rightarrow> real \<Rightarrow> real \<Rightarrow> nat \<Rightarrow> draw_cmd list \<Rightarrow> draw_cmd list option" where
  "y_marks_loop self axisMarkLength deltaYAxisLabel yAxisLabelSpacing labelNum drawn =
     (if real labelNum * yAxisLabelSpacing \<le> graphHeight self
      then y_marks_loop self axisMarkLength deltaYAxisLabel yAxisLabelSpacing (labelNum + 1)
             (drawn @ y_mark self axisMarkLength deltaYAxisLabel yAxisLabelSpacing labelNum)
      else Some drawn)"

text \<open>The x marks of \<^verbatim>\<open>Graph.draw\<close>: the labels of a categorical axis, or the planned
  ticks of a numeric one. The result is what was drawn and how the block ended.\<close>

definition x_axis_marks :: "'a Graph_scheme \<Rightarrow> real \<Rightarrow> draw_cmd list \<times> outcome" where
  "x_axis_marks self axisMarkLength =
     (case (if categoricalXAxis self then xCategoricalLabels self else None) of
        Some labels \<Rightarrow>
          (case py_div (graphWidth self) (real (length labels)) of
             Inl e \<Rightarrow> ([], Raised e)
           | Inr deltaLabel \<Rightarrow>
               (map (\<lambda>(i, lab).
                       DrawText (Str lab)
                         (graphX self + (real i + 0.5) * deltaLabel,
                          graphY self + graphHeight self
                            + (effectiveHeight self - graphHeight self) / 6)
                         (primaryColour self)
                         (fontName self,
                          py_int (0.35 * (effectiveHeight self - graphHeight self) / 2)) 0)
                    (enumerate 0 labels),
                Returned))
      | None \<Rightarrow>
          (case py_div (maxX self - minX self)
                       (of_int \<lfloor>axisMarkerDensity self * graphWidth self\<rfloor>) of
             Inl e \<Rightarrow> ([], Raised e)
           | Inr raw \<Rightarrow>
              (case next_lowest_decimultiple raw [1, 2, 5] of
                 Inl e \<Rightarrow> ([], Raised e)
               | Inr deltaXAxisLabel \<Rightarrow>
                  (case xScale self of
                     None \<Rightarrow> ([], Raised TypeError)
                   | Some xs \<Rightarrow>
                      (case x_marks_loop self axisMarkLength deltaXAxisLabel
                                         (xs * deltaXAxisLabel) 0 [] of
                         None \<Rightarrow> ([], Diverged)
                       | Some drawn \<Rightarrow> (drawn, Returned))))))"

definition y_axis_marks :: "'a Graph_scheme \<Rightarrow> real \<Rightarrow> draw_cmd list \<times> outcome" where
  "y_axis_marks self axisMarkLength =
     (case py_div (maxY self - minY self)
                  (of_int \<lfloor>axisMarkerDensity self * graphHeight self\<rfloor>) of
        Inl e \<Rightarrow> ([], Raised e)
      | Inr raw \<Rightarrow>
         (case next_lowest_decimultiple raw [1, 2, 5] of
            Inl e \<Rightarrow> ([], Raised e)
          | Inr deltaYAxisLabel \<Rightarrow>
             (case y_marks_loop self axisMarkLength deltaYAxisLabel
                                (yScale self * deltaYAxisLabel) 0 [] of
                None \<Rightarrow> ([], Diverged)
              | Some drawn \<Rightarrow> (drawn, Returned))))"

text \<open>\<^verbatim>\<open>Graph.draw(window)\<close>: the dimensions, then the border and the background, the
  axes, the title and the labels, then the x marks and the y marks. The result is the
  graph with its dimensions set, the commands issued so far and how the method ended.\<close>

definition Graph_draw ::
  "'a Graph_scheme \<Rightarrow> real \<times> real \<Rightarrow> 'a Graph_scheme \<times> draw_cmd list \<times> outcome" where
  "Graph_draw self window =
     (case (if \<not> dimensionsSet self then set_dimensions self window else Inr self) of
        Inl e \<Rightarrow> (self, [], Raised e)
      | Inr g \<Rightarrow>
         (case drawBorderAndBackground g of
            Inl e \<Rightarrow> (g, [], Raised e)
          | Inr frame \<Rightarrow>
             (let axisMarkLength = 0.005 * (graphHeight g + graphWidth g);
                  drawn = frame @ draw_axes_and_title g
              in case x_axis_marks g axisMarkLength of
                   (xm, Returned) \<Rightarrow>
                     (case y_axis_marks g axisMarkLength of
                        (ym, out) \<Rightarrow> (g, drawn @ xm @ ym, out))
                 | (xm, out) \<Rightarrow> (g, drawn @ xm, out))))"

section \<open>BoxplotGraph\<close>

record BoxplotGraph = Graph +
  dataB :: "DiscreteData list"
  numDatasets :: nat
  colours :: "colour option list"

text \<open>The values that \<^verbatim>\<open>drawBoxplot\<close> computes before it draws: the quartiles, the two
  whisker ends and the outliers.\<close>

record boxplot_values =
  medianValue :: real
  quarterOneV :: real
  quarterThreeV :: real
  iqr :: real
  lowerBound :: real
  upperBound :: real
  outliers :: "real list"

definition drawBoxplot_values :: "DiscreteData \<Rightarrow> error + boxplot_values" where
  "drawBoxplot_values dat =
     (case quarterOne dat of
        Inl e \<Rightarrow> Inl e
      | Inr q1 \<Rightarrow>
         (case quarterThree dat of
            Inl e \<Rightarrow> Inl e
          | Inr q3 \<Rightarrow>
             (case value_before_threshold (q1 - 1.5 * (q3 - q1)) (data dat) False of
                Inl e \<Rightarrow> Inl e
              | Inr lo \<Rightarrow>
                 (case value_before_threshold (q3 + 1.5 * (q3 - q1)) (data dat) True of
                    Inl e \<Rightarrow> Inl e
                  | Inr hi \<Rightarrow>
                      Inr \<lparr>medianValue = medianD dat, quarterOneV = q1, quarterThreeV = q3,
                           iqr = q3 - q1, lowerBound = lo, upperBound = hi,
                           outliers = filter (\<lambda>dataPoint. dataPoint < lo \<or> hi < dataPoint)
                                             (data dat)\<rparr>))))"

definition drawBoxplot ::
  "DiscreteData \<Rightarrow> real \<Rightarrow> real \<Rightarrow> real \<Rightarrow> real \<Rightarrow> colour \<Rightarrow> colour \<Rightarrow> error + draw_cmd list" where
  "drawBoxplot dat bx oY scale w c lineColour =
     (case drawBoxplot_values dat of
        Inl e \<Rightarrow> Inl e
      | Inr v \<Rightarrow>
          Inr ([DrawRect lineColour bx (oY - quarterThreeV v * scale) w
                         ((quarterThreeV v - quarterOneV v) * scale),
                DrawRect c (bx + 2) (oY - quarterThreeV v * scale + 2) (w - 4)
                         ((quarterThreeV v - quarterOneV v) * scale - 4),
                DrawLine lineColour (bx, oY - medianValue v * scale)
                         (bx + w - 2, oY - medianValue v * scale) 3,
                DrawLine lineColour (bx + w / 2, oY - quarterOneV v * scale)
                         (bx + w / 2, oY - lowerBound v * scale) 1,
                DrawLine lineColour (bx + w / 2, oY - quarterThreeV v * scale)
                         (bx + w / 2, oY - upperBound v * scale) 1,
                DrawLine lineColour (bx + w / 3, oY - lowerBound v * scale)
                         (bx + 2 * w / 3, oY - lowerBound v * scale) 1,
                DrawLine lineColour (bx + w / 3, oY - upperBound v * scale)
                         (bx + 2 * w / 3, oY - upperBound v * scale) 1]
               @ concat (map (\<lambda>val.
                    [DrawCircle c (bx + w / 2, oY - val * scale) (w * 0.05) 0,
                     DrawCircle lineColour (bx + w / 2, oY - val * scale) (w * 0.05) 1])
                  (outliers v))))"

text \<open>The loop of \<^verbatim>\<open>BoxplotGraph.draw\<close> over \<^verbatim>\<open>enumerate(self.data)\<close>.\<close>

fun boxes_loop ::
  "'a BoxplotGraph_scheme \<Rightarrow> real \<Rightarrow> DiscreteData list \<Rightarrow> nat \<Rightarrow> draw_cmd list \<times> outcome" where
  "boxes_loop self boxWidth [] i = ([], Returned)"
| "boxes_loop self boxWidth (dataset # rest) i =
     (case py_get (colours self) (int i) of
        Inl e \<Rightarrow> ([], Raised e)
      | Inr co \<Rightarrow>
         (let c = (case co of Some c \<Rightarrow> c | None \<Rightarrow> (100, 100, 100));
              lineColour = (case c of (r, g, b) \<Rightarrow> ((0 + r) / 2, (0 + g) / 2, (0 + b) / 2))
          in case drawBoxplot dataset (graphX self + (real i + 0.5 * (1 - 0.9)) * boxWidth)
                    (originY self) (yScale self) (boxWidth * 0.9) c lineColour of
               Inl e \<Rightarrow> ([], Raised e)
             | Inr box \<Rightarrow>
                 (case boxes_loop self boxWidth rest (i + 1) of
                    (others, out) \<Rightarrow> (box @ others, out))))"

definition BoxplotGraph_draw ::
  "'a BoxplotGraph_scheme \<Rightarrow> real \<times> real \<Rightarrow> 'a BoxplotGraph_scheme \<times> draw_cmd list \<times> outcome" where
  "BoxplotGraph_draw self window =
     (case Graph_draw self window of
        (g, drawn, Returned) \<Rightarrow>
          (case py_div (graphWidth g) (real (numDatasets g)) of
             Inl e \<Rightarrow> (g, drawn, Raised e)
           | Inr boxWidth \<Rightarrow>
               (case boxes_loop g boxWidth (dataB g) 0 of
                  (boxes, out) \<Rightarrow> (g, drawn @ boxes, out)))
      | (g, drawn, out) \<Rightarrow> (g, drawn, out))"

section \<open>Scatterplot\<close>







record Scatterplot = Graph +
  datasets :: "MultivariableDiscreteData list"
  numDatasetsS :: nat
  coloursS :: "colour list"
  bestFitLines :: "bool list"
  mainBestFitLine :: bool
  pointSizes :: "real option list"
  printBestFitInfo :: bool







section \<open>Example charts\<close>

text \<open>Two charts used as concrete inputs below: a numeric graph of 200 by 100 pixels
  whose axes run from 2 to 4 and from 1 to 3, and a boxplot of one dataset whose pixel
  rectangle has height zero. The derived attributes hold placeholders until
  \<^verbatim>\<open>set_dimensions\<close> assigns them.\<close>

definition example_graph :: Graph where
  "example_graph =
     \<lparr>maxY = 3, categoricalXAxis = False, maxX = 4, minY = 1, minX = 2,
      xCategoricalLabels = None, posX = 0, posY = 0, width = Some 200, height = Some 100,
      graphSize = 1 / 2, borderWidth = 0, showXAxisLabel = True, showYAxisLabel = True,
      bgColour = (255, 255, 255), primaryColour = (0, 0, 0), borderColour = (0, 0, 0),
      title = ''graph'', xAxisLabel = ''x'', yAxisLabel = ''y'', fontName = ''freesanbold'',
      axisMarkerDensity = 0.008,
      effectiveX = 0, effectiveY = 0, effectiveWidth = 0, effectiveHeight = 0,
      graphX = 0, graphY = 0, graphWidth = 0, graphHeight = 0,
      originX = None, originY = 0, xScale = None, yScale = 0, dimensionsSet = False\<rparr>"


section \<open>Index arithmetic of the quartiles\<close>

lemma py_get_nat: "i < length xs \<Longrightarrow> j = int i \<Longrightarrow> py_get xs j = Inr (xs ! i)"
  by (simp add: py_get_def)

lemma frac_quarter: "frac (real m / 4) = 0 \<longleftrightarrow> m mod 4 = 0"
proof
  assume "frac (real m / 4) = 0"
  then have "real m / 4 \<in> \<int>" by (simp add: frac_eq_0_iff)
  then obtain z :: int where z: "real m / 4 = of_int z" by (auto elim: Ints_cases)
  then have "real m = of_int (4 * z)" by simp
  then have "int m = 4 * z" by linarith
  then show "m mod 4 = 0" by presburger
next
  assume "m mod 4 = 0"
  then obtain j where "m = 4 * j" by (auto elim: dvdE)
  then show "frac (real m / 4) = 0" by simp
qed

lemma floor_quarter: "\<lfloor>real m / 4\<rfloor> = int (m div 4)"
  using floor_divide_of_nat_eq [of m 4] by simp

lemma py_int_quarter: "py_int (real m / 4) = int (m div 4)"
  by (simp add: py_int_def floor_quarter)

lemma py_int_quarter_half: "m mod 4 = 0 \<Longrightarrow> py_int (real m / 4 + 1 / 2) = int (m div 4)"
proof -
  assume "m mod 4 = 0"
  then obtain j where j: "m = 4 * j" by (auto elim: dvdE)
  have "\<lfloor>real j + 1 / 2\<rfloor> = int j" by linarith
  then show ?thesis using j by (simp add: py_int_def)
qed

lemma quarter_of_length:
  "xs \<noteq> [] \<Longrightarrow> real_of_int (int (length (sort xs)) - 1) / 4 = real (length xs - 1) / 4"
  by (cases xs) simp_all

lemma quartile_index_bounds:
  fixes n :: nat
  assumes "0 < n"
  shows "(n - 1) div 4 < n" and "3 * ((n - 1) div 4) < n"
    and "(n - 1) mod 4 \<noteq> 0 \<Longrightarrow> (n - 1) div 4 + 1 < n"
    and "(n - 1) mod 4 \<noteq> 0 \<Longrightarrow> 3 * ((n - 1) div 4) + 1 < n"
  using assms by presburger+

lemma quarterOne_eq:
  assumes "data self \<noteq> []"
  shows "quarterOne self =
    (let s = sort (data self); k = (length (data self) - 1) div 4
     in if (length (data self) - 1) mod 4 = 0 then Inr (s ! k)
        else Inr ((s ! k + s ! (k + 1)) / 2))"
proof -
  define m where "m = length (data self) - 1"
  define s where "s = sort (data self)"
  have n: "0 < length (data self)" using assms by simp
  have len: "length s = length (data self)" by (simp add: s_def)
  have q: "real_of_int (int (length s) - 1) / 4 = real m / 4"
    using assms by (cases "data self") (simp_all add: len m_def)
  have unf: "quarterOne self =
      (if frac (real m / 4) = 0 then py_get s (py_int (real m / 4 + 0.5))
       else (case py_get s (py_int (real m / 4)) of Inl e \<Rightarrow> Inl e
             | Inr a \<Rightarrow> (case py_get s (py_int (real m / 4) + 1) of Inl e \<Rightarrow> Inl e
                          | Inr b \<Rightarrow> Inr ((a + b) / 2))))"
    unfolding quarterOne_def Let_def s_def [symmetric] q by (rule refl)
  have g0: "py_get s (int (m div 4)) = Inr (s ! (m div 4))"
    using quartile_index_bounds(1) [OF n] by (intro py_get_nat) (simp_all add: len m_def)
  have g1: "m mod 4 \<noteq> 0 \<Longrightarrow> py_get s (int (m div 4) + 1) = Inr (s ! (m div 4 + 1))"
    using quartile_index_bounds(3) [OF n] by (intro py_get_nat) (simp_all add: len m_def)
  show ?thesis
  proof (cases "m mod 4 = 0")
    case True
    then show ?thesis
      unfolding unf frac_quarter Let_def s_def [symmetric] m_def [symmetric]
      by (simp add: py_int_quarter_half g0)
  next
    case False
    then show ?thesis
      unfolding unf frac_quarter Let_def s_def [symmetric] m_def [symmetric]
      by (simp add: py_int_quarter g0 g1)
  qed
qed

lemma quarterThree_eq:
  assumes "data self \<noteq> []"
  shows "quarterThree self =
    (let s = sort (data self); k = (length (data self) - 1) div 4
     in if (length (data self) - 1) mod 4 = 0 then Inr (s ! (3 * k))
        else Inr ((s ! (3 * k) + s ! (3 * k + 1)) / 2))"
proof -
  define m where "m = length (data self) - 1"
  define s where "s = sort (data self)"
  have n: "0 < length (data self)" using assms by simp
  have len: "length s = length (data self)" by (simp add: s_def)
  have q: "real_of_int (int (length s) - 1) / 4 = real m / 4"
    using assms by (cases "data self") (simp_all add: len m_def)
  have unf: "quarterThree self =
      (if frac (real m / 4) = 0 then py_get s (3 * py_int (real m / 4 + 0.5))
       else (case py_get s (3 * py_int (real m / 4)) of Inl e \<Rightarrow> Inl e
             | Inr a \<Rightarrow> (case py_get s (3 * py_int (real m / 4) + 1) of Inl e \<Rightarrow> Inl e
                          | Inr b \<Rightarrow> Inr ((a + b) / 2))))"
    unfolding quarterThree_def Let_def s_def [symmetric] q by (rule refl)
  have g0: "py_get s (3 * int (m div 4)) = Inr (s ! (3 * (m div 4)))"
    using quartile_index_bounds(2) [OF n] by (intro py_get_nat) (simp_all add: len m_def)
  have g1: "m mod 4 \<noteq> 0 \<Longrightarrow> py_get s (3 * int (m div 4) + 1) = Inr (s ! (3 * (m div 4) + 1))"
    using quartile_index_bounds(4) [OF n] by (intro py_get_nat) (simp_all add: len m_def)
  show ?thesis
  proof (cases "m mod 4 = 0")
    case True
    then show ?thesis
      unfolding unf frac_quarter Let_def s_def [symmetric] m_def [symmetric]
      by (simp add: py_int_quarter_half g0)
  next
    case False
    then show ?thesis
      unfolding unf frac_quarter Let_def s_def [symmetric] m_def [symmetric]
      by (simp add: py_int_quarter g0 g1)
  qed
qed

section \<open>Claims about the quartiles\<close>

text \<open>
  Claim C2. For every non-empty list whose ascending sort has length \<open>n\<close>, with
  \<open>k = \<lfloor>(n - 1) / 4\<rfloor>\<close>: if \<open>(n - 1) / 4\<close> is an integer, \<^verbatim>\<open>quarterOne\<close> returns the sorted value
  at index \<open>k\<close> and \<^verbatim>\<open>quarterThree\<close> the sorted value at index \<open>3 k\<close>; otherwise
  \<^verbatim>\<open>quarterOne\<close> returns the average of the sorted values at indices \<open>k\<close> and \<open>k + 1\<close>, and
  \<^verbatim>\<open>quarterThree\<close> the average of the sorted values at indices \<open>3 k\<close> and \<open>3 k + 1\<close>.
\<close>

theorem quartile_rank_rule:
  assumes "data self \<noteq> []"
  shows "(let s = sort (data self);
              n = length s;
              k = nat \<lfloor>(real n - 1) / 4\<rfloor>
          in if (real n - 1) / 4 \<in> \<int>
             then quarterOne self = Inr (s ! k) \<and> quarterThree self = Inr (s ! (3 * k))
             else quarterOne self = Inr ((s ! k + s ! (k + 1)) / 2) \<and>
                  quarterThree self = Inr ((s ! (3 * k) + s ! (3 * k + 1)) / 2))"
proof -
  define m where "m = length (data self) - 1"
  have n: "real (length (sort (data self))) - 1 = real m"
    using assms by (cases "data self") (simp_all add: m_def)
  have k: "nat \<lfloor>real m / 4\<rfloor> = m div 4" by (simp add: floor_quarter)
  have i: "real m / 4 \<in> \<int> \<longleftrightarrow> m mod 4 = 0"
    using frac_quarter [of m] by (simp add: frac_eq_0_iff)
  show ?thesis
    unfolding Let_def n k i
    by (simp add: quarterOne_eq [OF assms] quarterThree_eq [OF assms] Let_def m_def)
qed

theorem quartile_rank_rule_witness:
  "quarterOne \<lparr>data = [40, 10, 30, 20, 50], label = ''a'', units = ''cm'', sizeD = 5, medianD = 30\<rparr> = Inr 20
   \<and> quarterThree \<lparr>data = [40, 10, 30, 20, 50], label = ''a'', units = ''cm'', sizeD = 5, medianD = 30\<rparr> = Inr 40"
  using quartile_rank_rule [of "\<lparr>data = [40, 10, 30, 20, 50], label = ''a'', units = ''cm'', sizeD = 5, medianD = 30\<rparr>"]
  by (simp add: Let_def)

text \<open>
  Claim C10. For every non-empty input list, \<^verbatim>\<open>quarterOne\<close> and \<^verbatim>\<open>quarterThree\<close> read only
  indices of the sorted copy that lie within \<open>0 \<dots> n - 1\<close>, and both return a value; this
  holds for every length \<open>n \<ge> 1\<close>, the lengths up to four included. The indices are the
  ones the source computes: \<^verbatim>\<open>int(q + 0.5)\<close> and its triple on the integer path,
  \<^verbatim>\<open>int(q)\<close>, \<^verbatim>\<open>int(q) + 1\<close>, \<^verbatim>\<open>3 * int(q)\<close> and \<^verbatim>\<open>3 * int(q) + 1\<close> on the averaging path.
\<close>

theorem quartiles_in_bounds:
  assumes "data self \<noteq> []"
  shows "(let tempData = sort (data self);
              n = int (length tempData);
              q = real_of_int (n - 1) / 4
          in (if frac q = 0
              then 0 \<le> py_int (q + 1 / 2) \<and> py_int (q + 1 / 2) < n \<and> 3 * py_int (q + 1 / 2) < n
              else 0 \<le> py_int q \<and> py_int q + 1 < n \<and> 3 * py_int q + 1 < n)
             \<and> (\<exists>v. quarterOne self = Inr v) \<and> (\<exists>v. quarterThree self = Inr v))"
proof -
  define m where "m = length (data self) - 1"
  have n: "0 < length (data self)" using assms by simp
  have len: "int (length (sort (data self))) = int m + 1"
    using assms by (cases "data self") (simp_all add: m_def)
  have b1: "int (m div 4) < int m + 1" and b2: "3 * int (m div 4) < int m + 1"
    by presburger+
  have b3: "m mod 4 \<noteq> 0 \<Longrightarrow> int (m div 4) + 1 < int m + 1"
    and b4: "m mod 4 \<noteq> 0 \<Longrightarrow> 3 * int (m div 4) + 1 < int m + 1"
    by presburger+
  have idx: "if frac (real m / 4) = 0
      then 0 \<le> py_int (real m / 4 + 1 / 2) \<and> py_int (real m / 4 + 1 / 2) < int m + 1
           \<and> 3 * py_int (real m / 4 + 1 / 2) < int m + 1
      else 0 \<le> py_int (real m / 4) \<and> py_int (real m / 4) + 1 < int m + 1
           \<and> 3 * py_int (real m / 4) + 1 < int m + 1"
  proof (cases "m mod 4 = 0")
    case True
    then show ?thesis unfolding frac_quarter using b1 b2 by (simp add: py_int_quarter_half)
  next
    case False
    then show ?thesis unfolding frac_quarter using b3 b4 by (simp add: py_int_quarter)
  qed
  have r1: "\<exists>v. quarterOne self = Inr v"
    unfolding quarterOne_eq [OF assms] Let_def by metis
  have r3: "\<exists>v. quarterThree self = Inr v"
    unfolding quarterThree_eq [OF assms] Let_def by metis
  have q: "real_of_int (int m + 1 - 1) / 4 = real m / 4"
    by simp
  show ?thesis
    unfolding Let_def len q using idx r1 r3 by blast
qed

theorem quartiles_in_bounds_witness:
  "(\<exists>v. quarterOne \<lparr>data = [7], label = ''a'', units = ''cm'', sizeD = 1, medianD = 7\<rparr> = Inr v)
   \<and> (\<exists>v. quarterThree \<lparr>data = [7], label = ''a'', units = ''cm'', sizeD = 1, medianD = 7\<rparr> = Inr v)"
  using quartiles_in_bounds [of "\<lparr>data = [7], label = ''a'', units = ''cm'', sizeD = 1, medianD = 7\<rparr>"]
  by (simp add: Let_def)

text \<open>
  Claim C7, as amended. For the dataset \<open>[1, 2, 3, 4, 5, 6, 7, 8]\<close> the quotient
  \<open>(8 - 1) / 4 = 1.75\<close> is not an integer, so both quartiles take the averaging path:
  \<^verbatim>\<open>quarterOne\<close> returns the average of the values at indices 1 and 2, which is 2.5, and
  \<^verbatim>\<open>quarterThree\<close> the average of the values at indices 3 and 4, which is 4.5. The
  counterexample shows that the values 2 and 6 of the claim as stated are not returned.
\<close>

theorem quartiles_of_one_to_eight:
  "quarterOne (self\<lparr>data := [1, 2, 3, 4, 5, 6, 7, 8]\<rparr>) = Inr (5 / 2) \<and>
   quarterThree (self\<lparr>data := [1, 2, 3, 4, 5, 6, 7, 8]\<rparr>) = Inr (9 / 2)"
  by (simp add: quarterOne_def quarterThree_def py_get_def py_int_def frac_def)

theorem quartiles_of_one_to_eight_counterexample:
  "DiscreteData_init [1, 2, 3, 4, 5, 6, 7, 8] ''a'' ''cm'' =
     Inr \<lparr>data = [1, 2, 3, 4, 5, 6, 7, 8], label = ''a'', units = ''cm'', sizeD = 8, medianD = 9 / 2\<rparr>
   \<and> quarterOne \<lparr>data = [1, 2, 3, 4, 5, 6, 7, 8], label = ''a'', units = ''cm'', sizeD = 8, medianD = 9 / 2\<rparr> \<noteq> Inr 2
   \<and> quarterThree \<lparr>data = [1, 2, 3, 4, 5, 6, 7, 8], label = ''a'', units = ''cm'', sizeD = 8, medianD = 9 / 2\<rparr> \<noteq> Inr 6"
  by (simp add: DiscreteData_init_def median_def quarterOne_def quarterThree_def py_get_def py_int_def frac_def)

section \<open>Construction of multi-dimensional datasets\<close>



lemma DiscreteData_init_size:
  "DiscreteData_init dat lab un = Inr d \<Longrightarrow> data d = dat \<and> sizeD d = length dat \<and> dat \<noteq> []"
  by (auto simp: DiscreteData_init_def median_def py_get_def py_int_def split: sum.splits if_splits)



section \<open>Least-squares regression\<close>







section \<open>The nice tick interval\<close>






section \<open>Whisker ends and outliers of a boxplot\<close>

lemma threshold_loop_eq:
  "threshold_loop b vc below xs i =
     (if \<exists>v\<in>set xs. b < v
      then Some (py_get vc (int (i + length (takeWhile (\<lambda>v. \<not> b < v) xs))
                            - (if below then 1 else 0)))
      else None)"
  by (induction xs arbitrary: i) (auto simp: ac_simps)

lemma takeWhile_short:
  "length (takeWhile (\<lambda>v. \<not> b < v) xs) < length xs \<longleftrightarrow> (\<exists>v\<in>set xs. (b::real) < v)"
proof -
  have "length (takeWhile (\<lambda>v. \<not> b < v) xs) = length xs \<longleftrightarrow> takeWhile (\<lambda>v. \<not> b < v) xs = xs"
    by (metis takeWhile_eq_take take_all_iff order_refl length_takeWhile_le le_antisym length_take min.absorb2)
  then show ?thesis
    using length_takeWhile_le [of "\<lambda>v. \<not> b < v" xs] takeWhile_eq_all_conv [of "\<lambda>v. \<not> b < v" xs]
    by (auto simp: less_le)
qed

lemma value_before_threshold_index:
  "value_before_threshold b vals below =
     (let s = sort vals;
          n = length s;
          k = length (takeWhile (\<lambda>v. \<not> b < v) s)
      in if below
         then (if n = 0 then Inl IndexError else Inr (s ! ((if k = 0 then n else k) - 1)))
         else (if k < n then Inr (s ! k) else Inl (ValueError NoValuesAboveThreshold)))"
proof -
  define s where "s = sort vals"
  define k where "k = length (takeWhile (\<lambda>v. \<not> b < v) s)"
  have kn: "k \<le> length s" unfolding k_def by (rule length_takeWhile_le)
  have ex: "(\<exists>v\<in>set s. b < v) \<longleftrightarrow> k < length s"
    unfolding k_def by (simp add: takeWhile_short)
  show ?thesis
  proof (cases "k < length s")
    case True
    then have loop: "threshold_loop b s below s 0 = Some (py_get s (int k - (if below then 1 else 0)))"
      using ex by (simp add: threshold_loop_eq k_def)
    show ?thesis
      unfolding value_before_threshold_def Let_def s_def [symmetric] k_def [symmetric] loop
      using True by (cases "k = 0") (auto simp: py_get_def nat_diff_distrib' of_nat_diff Suc_le_eq)
  next
    case False
    then have k: "k = length s" using kn by simp
    have loop: "threshold_loop b s below s 0 = None"
      using ex False by (simp add: threshold_loop_eq)
    show ?thesis
      unfolding value_before_threshold_def Let_def s_def [symmetric] k_def [symmetric] loop
      using k by (auto simp: py_get_def nat_diff_distrib' of_nat_diff Suc_le_eq)
  qed
qed


text \<open>Order facts about a sorted list around a bound.\<close>

lemma sorted_below_takeWhile:
  fixes s :: "real list"
  assumes "j < length (takeWhile (\<lambda>v. \<not> b < v) s)"
  shows "s ! j \<le> b"
proof -
  have "takeWhile (\<lambda>v. \<not> b < v) s ! j \<in> set (takeWhile (\<lambda>v. \<not> b < v) s)"
    using assms by (rule nth_mem)
  then have "\<not> b < takeWhile (\<lambda>v. \<not> b < v) s ! j" by (rule set_takeWhileD [THEN conjunct2])
  then show ?thesis using takeWhile_nth [OF assms] by simp
qed

lemma sorted_above_takeWhile:
  fixes s :: "real list"
  assumes "sorted s" and "length (takeWhile (\<lambda>v. \<not> b < v) s) \<le> j" and "j < length s"
  shows "b < s ! j"
proof -
  let ?k = "length (takeWhile (\<lambda>v. \<not> b < v) s)"
  have k: "?k < length s" using assms by simp
  have "\<not> \<not> b < s ! ?k" by (rule nth_length_takeWhile [OF k])
  moreover have "s ! ?k \<le> s ! j" using assms by (simp add: sorted_nth_mono)
  ultimately show ?thesis by simp
qed

lemma Min_above_bound:
  fixes vals :: "real list" and b :: real
  defines "s \<equiv> sort vals"
  defines "k \<equiv> length (takeWhile (\<lambda>v. \<not> b < v) s)"
  assumes "k < length s"
  shows "Min {v \<in> set vals. b < v} = s ! k"
proof (rule Min_eqI)
  show "finite {v \<in> set vals. b < v}" by simp
  have srt: "sorted s" by (simp add: s_def)
  have sets: "set s = set vals" by (simp add: s_def)
  show "s ! k \<in> {v \<in> set vals. b < v}"
    using sorted_above_takeWhile [OF srt, of b k] assms(3) nth_mem [OF assms(3)] sets
    by (simp add: k_def)
  fix y assume "y \<in> {v \<in> set vals. b < v}"
  then have y: "y \<in> set s" "b < y" using sets by auto
  then obtain j where j: "j < length s" "s ! j = y" by (auto simp: in_set_conv_nth)
  have "k \<le> j"
  proof (rule ccontr)
    assume "\<not> k \<le> j"
    then have "s ! j \<le> b" using sorted_below_takeWhile [of j b s] by (simp add: k_def)
    with j y show False by simp
  qed
  then show "s ! k \<le> y" using srt j by (auto simp: sorted_nth_mono)
qed

lemma Max_below_bound:
  fixes vals :: "real list" and b :: real
  defines "s \<equiv> sort vals"
  defines "k \<equiv> length (takeWhile (\<lambda>v. \<not> b < v) s)"
  assumes "0 < k"
  shows "Max {v \<in> set vals. v \<le> b} = s ! (k - 1)"
proof (rule Max_eqI)
  show "finite {v \<in> set vals. v \<le> b}" by simp
  have srt: "sorted s" by (simp add: s_def)
  have sets: "set s = set vals" by (simp add: s_def)
  have kn: "k \<le> length s" unfolding k_def by (rule length_takeWhile_le)
  have k1: "k - 1 < length s" using assms(3) kn by simp
  show "s ! (k - 1) \<in> {v \<in> set vals. v \<le> b}"
    using sorted_below_takeWhile [of "k - 1" b s] assms(3) nth_mem [OF k1] sets
    by (simp add: k_def)
  fix y assume "y \<in> {v \<in> set vals. v \<le> b}"
  then have y: "y \<in> set s" "y \<le> b" using sets by auto
  then obtain j where j: "j < length s" "s ! j = y" by (auto simp: in_set_conv_nth)
  have "j < k"
  proof (rule ccontr)
    assume "\<not> j < k"
    then have "b < s ! j" using sorted_above_takeWhile [OF srt, of b j] j by (simp add: k_def)
    with j y show False by simp
  qed
  then have "j \<le> k - 1" by simp
  then show "y \<le> s ! (k - 1)" using srt j k1 by (auto simp: sorted_nth_mono)
qed


lemma value_before_threshold_above:
  "value_before_threshold b vals False =
     (if \<exists>v\<in>set vals. b < v then Inr (Min {v \<in> set vals. b < v})
      else Inl (ValueError NoValuesAboveThreshold))"
proof -
  have ex: "(\<exists>v\<in>set vals. b < v) \<longleftrightarrow>
      length (takeWhile (\<lambda>v. \<not> b < v) (sort vals)) < length (sort vals)"
    using takeWhile_short [of b "sort vals"] by simp
  show ?thesis
  proof (cases "\<exists>v\<in>set vals. b < v")
    case True
    with ex have k: "length (takeWhile (\<lambda>v. \<not> b < v) (sort vals)) < length (sort vals)"
      by blast
    show ?thesis
      unfolding value_before_threshold_index Let_def Min_above_bound [OF k]
      using True k by simp
  next
    case False
    with ex have "\<not> length (takeWhile (\<lambda>v. \<not> b < v) (sort vals)) < length (sort vals)"
      by blast
    with False show ?thesis
      unfolding value_before_threshold_index Let_def by simp
  qed
qed

lemma value_before_threshold_below:
  assumes "\<exists>v\<in>set vals. v \<le> b"
  shows "value_before_threshold b vals True = Inr (Max {v \<in> set vals. v \<le> b})"
proof -
  define s where "s = sort vals"
  from assms obtain v where v: "v \<in> set vals" "v \<le> b" by blast
  have "set s = set vals" by (simp add: s_def)
  with v have ne: "s \<noteq> []" by auto
  then obtain x xs where sx: "s = x # xs" by (cases s) auto
  have "sorted s" by (simp add: s_def)
  moreover have "v \<in> set s" using v by (simp add: s_def)
  ultimately have "x \<le> v" unfolding sx by auto
  with v have "\<not> b < x" by simp
  then have k: "0 < length (takeWhile (\<lambda>v. \<not> b < v) (sort vals))"
    unfolding s_def [symmetric] sx by simp
  show ?thesis
    unfolding value_before_threshold_index Let_def Max_below_bound [OF k]
    using k v by auto
qed

lemma quartiles_ordered:
  assumes ne: "data dat \<noteq> []"
  shows "\<exists>q1 q3. quarterOne dat = Inr q1 \<and> quarterThree dat = Inr q3 \<and> q1 \<le> q3 \<and>
           (\<exists>v\<in>set (data dat). v \<le> q3)"
proof -
  define s where "s = sort (data dat)"
  define k where "k = (length (data dat) - 1) div 4"
  have n: "0 < length (data dat)" using ne by simp
  have srt: "sorted s" and len: "length s = length (data dat)" and sets: "set s = set (data dat)"
    by (simp_all add: s_def)
  have b3: "3 * k < length s"
    unfolding k_def len by (rule quartile_index_bounds(2) [OF n])
  have s0: "s ! 0 \<in> set (data dat)" using n len sets nth_mem [of 0 s] by simp
  have m0: "s ! 0 \<le> s ! (3 * k)" using srt b3 by (simp add: sorted_nth_mono)
  have m1: "s ! k \<le> s ! (3 * k)" using srt b3 by (simp add: sorted_nth_mono)
  show ?thesis
  proof (cases "(length (data dat) - 1) mod 4 = 0")
    case True
    have "quarterOne dat = Inr (s ! k)" "quarterThree dat = Inr (s ! (3 * k))"
      using True by (simp_all add: quarterOne_eq [OF ne] quarterThree_eq [OF ne] Let_def s_def k_def)
    with m0 m1 s0 show ?thesis by blast
  next
    case False
    have b4: "3 * k + 1 < length s"
      unfolding k_def len by (rule quartile_index_bounds(4) [OF n False])
    have m2: "s ! (k + 1) \<le> s ! (3 * k + 1)" using srt b4 by (simp add: sorted_nth_mono)
    have m3: "s ! (3 * k) \<le> s ! (3 * k + 1)" using srt b4 by (simp add: sorted_nth_mono)
    have q: "quarterOne dat = Inr ((s ! k + s ! (k + 1)) / 2)"
      "quarterThree dat = Inr ((s ! (3 * k) + s ! (3 * k + 1)) / 2)"
      using False by (simp_all add: quarterOne_eq [OF ne] quarterThree_eq [OF ne] Let_def s_def k_def)
    have "(s ! k + s ! (k + 1)) / 2 \<le> (s ! (3 * k) + s ! (3 * k + 1)) / 2"
      using m1 m2 by simp
    moreover have "s ! 0 \<le> (s ! (3 * k) + s ! (3 * k + 1)) / 2"
      using m0 m3 by simp
    ultimately show ?thesis using q s0 by blast
  qed
qed



text \<open>
  Claim C1, as amended. For every non-empty list of values with quartiles \<open>q1\<close>, \<open>q3\<close> and
  \<open>iqr = q3 - q1\<close>, the search for the whisker ends in \<^verbatim>\<open>drawBoxplot\<close> returns as the
  lower end the smallest data value strictly greater than \<open>q1 - 1.5 iqr\<close> and as the
  upper end the largest data value that is at most \<open>q3 + 1.5 iqr\<close>. If no value lies
  above the lower cutoff, the lower search fails with
  \<^verbatim>\<open>ValueError("No values above threshold.")\<close>; the upper search never fails, and it
  returns the overall maximum when no value lies above the upper cutoff. The counterexample
  shows a dataset on which the ends of the claim as stated (\<open>- 50\<close> and \<open>5\<close>) are not the
  ones computed (\<open>1\<close> and \<open>3\<close>), and a dataset with no value above the upper cutoff on
  which nothing fails.
\<close>

theorem whisker_ends:
  assumes "data dat \<noteq> []"
  shows "\<exists>q1 q3. quarterOne dat = Inr q1 \<and> quarterThree dat = Inr q3 \<and>
     (let lo = q1 - 1.5 * (q3 - q1);
          hi = q3 + 1.5 * (q3 - q1)
      in value_before_threshold lo (data dat) False =
           (if \<exists>v\<in>set (data dat). lo < v then Inr (Min {v \<in> set (data dat). lo < v})
            else Inl (ValueError NoValuesAboveThreshold))
         \<and> value_before_threshold hi (data dat) True = Inr (Max {v \<in> set (data dat). v \<le> hi})
         \<and> ((\<forall>v\<in>set (data dat). v \<le> hi) \<longrightarrow>
               value_before_threshold hi (data dat) True = Inr (Max (set (data dat))))
         \<and> (case drawBoxplot_values dat of
               Inr r \<Rightarrow> (\<exists>v\<in>set (data dat). lo < v) \<and>
                        lowerBound r = Min {v \<in> set (data dat). lo < v} \<and>
                        upperBound r = Max {v \<in> set (data dat). v \<le> hi}
             | Inl e \<Rightarrow> \<not> (\<exists>v\<in>set (data dat). lo < v) \<and>
                        e = ValueError NoValuesAboveThreshold))"
proof -
  from quartiles_ordered [OF assms] obtain q1 q3 where
    q: "quarterOne dat = Inr q1" "quarterThree dat = Inr q3" and le: "q1 \<le> q3"
    and v: "\<exists>v\<in>set (data dat). v \<le> q3" by blast
  define lo where "lo = q1 - 1.5 * (q3 - q1)"
  define hi where "hi = q3 + 1.5 * (q3 - q1)"
  have "q3 \<le> hi" using le by (simp add: hi_def)
  with v have vh: "\<exists>v\<in>set (data dat). v \<le> hi" by (meson order_trans)
  have up: "value_before_threshold hi (data dat) True = Inr (Max {v \<in> set (data dat). v \<le> hi})"
    by (rule value_before_threshold_below [OF vh])
  have allmax: "value_before_threshold hi (data dat) True = Inr (Max (set (data dat)))"
    if "\<forall>v\<in>set (data dat). v \<le> hi"
  proof -
    from that have "{v \<in> set (data dat). v \<le> hi} = set (data dat)" by blast
    with up show ?thesis by simp
  qed
  have dv: "case drawBoxplot_values dat of
               Inr r \<Rightarrow> (\<exists>v\<in>set (data dat). lo < v) \<and>
                        lowerBound r = Min {v \<in> set (data dat). lo < v} \<and>
                        upperBound r = Max {v \<in> set (data dat). v \<le> hi}
             | Inl e \<Rightarrow> \<not> (\<exists>v\<in>set (data dat). lo < v) \<and>
                        e = ValueError NoValuesAboveThreshold"
    unfolding drawBoxplot_values_def q sum.case lo_def [symmetric] hi_def [symmetric] up
      value_before_threshold_above
    by simp
  show ?thesis
    apply (rule exI [of _ q1], rule exI [of _ q3])
    unfolding Let_def lo_def [symmetric] hi_def [symmetric]
    using q up allmax dv value_before_threshold_above [of lo "data dat"]
    by blast
qed


theorem whisker_ends_witness:
  "value_before_threshold (3 / 2 - 1.5 * (5 / 2 - 3 / 2)) [- 50, 1, 2, 2, 3, 5, 50] False
     = Inr (Min {v \<in> set [- 50, 1, 2, 2, 3, 5, 50]. 3 / 2 - 1.5 * (5 / 2 - 3 / 2) < v})
   \<and> value_before_threshold (5 / 2 + 1.5 * (5 / 2 - 3 / 2)) [- 50, 1, 2, 2, 3, 5, 50] True
     = Inr (Max {v \<in> set [- 50, 1, 2, 2, 3, 5, 50]. v \<le> 5 / 2 + 1.5 * (5 / 2 - 3 / 2)})"
proof -
  let ?d = "\<lparr>data = [- 50, 1, 2, 2, 3, 5, 50], label = ''a'', units = ''cm'', sizeD = 7,
             medianD = 2\<rparr>"
  have q: "quarterOne ?d = Inr (3 / 2)" "quarterThree ?d = Inr (5 / 2)"
    by (simp_all add: quarterOne_def quarterThree_def py_get_def py_int_def frac_def)
  have ne: "data ?d \<noteq> []" by simp
  have ex: "\<exists>v\<in>set (data ?d). 3 / 2 - 1.5 * (5 / 2 - 3 / 2) < v" by simp
  from whisker_ends [OF ne] obtain q1 q3 where
    w: "quarterOne ?d = Inr q1" "quarterThree ?d = Inr q3"
      "value_before_threshold (q1 - 1.5 * (q3 - q1)) (data ?d) False =
         (if \<exists>v\<in>set (data ?d). q1 - 1.5 * (q3 - q1) < v
          then Inr (Min {v \<in> set (data ?d). q1 - 1.5 * (q3 - q1) < v})
          else Inl (ValueError NoValuesAboveThreshold))"
      "value_before_threshold (q3 + 1.5 * (q3 - q1)) (data ?d) True =
         Inr (Max {v \<in> set (data ?d). v \<le> q3 + 1.5 * (q3 - q1)})"
    unfolding Let_def by blast
  from w(1,2) q have e: "q1 = 3 / 2" "q3 = 5 / 2" by simp_all
  from w(3) ex have "value_before_threshold (3 / 2 - 1.5 * (5 / 2 - 3 / 2)) (data ?d) False =
      Inr (Min {v \<in> set (data ?d). 3 / 2 - 1.5 * (5 / 2 - 3 / 2) < v})"
    unfolding e by (simp only: if_True)
  moreover from w(4) have "value_before_threshold (5 / 2 + 1.5 * (5 / 2 - 3 / 2)) (data ?d) True =
      Inr (Max {v \<in> set (data ?d). v \<le> 5 / 2 + 1.5 * (5 / 2 - 3 / 2)})"
    unfolding e .
  ultimately show ?thesis by simp
qed

theorem whisker_ends_counterexample:
  "drawBoxplot_values
     \<lparr>data = [- 50, 1, 2, 2, 3, 5, 50], label = ''a'', units = ''cm'', sizeD = 7, medianD = 2\<rparr>
   = Inr \<lparr>medianValue = 2, quarterOneV = 3 / 2, quarterThreeV = 5 / 2, iqr = 1,
          lowerBound = 1, upperBound = 3, outliers = [- 50, 5, 50]\<rparr>
   \<and> Max {v \<in> set [- 50, 1, 2, 2, 3, 5, 50]. v \<le> (3 / 2 - 1.5 * 1 :: real)} = - 50
   \<and> Min {v \<in> set [- 50, 1, 2, 2, 3, 5, 50]. (5 / 2 + 1.5 * 1 :: real) \<le> v} = 5
   \<and> drawBoxplot_values
     \<lparr>data = [1, 2, 3, 4, 5], label = ''a'', units = ''cm'', sizeD = 5, medianD = 3\<rparr>
   = Inr \<lparr>medianValue = 3, quarterOneV = 2, quarterThreeV = 4, iqr = 2,
          lowerBound = 1, upperBound = 5, outliers = []\<rparr>
   \<and> {v \<in> set [1, 2, 3, 4, 5]. (4 + 1.5 * 2 :: real) < v} = {}"
proof -
  have a: "{v \<in> set [- 50, 1, 2, 2, 3, 5, 50]. v \<le> (3 / 2 - 1.5 * 1 :: real)} = {- 50}"
    by auto
  have b: "{v \<in> set [- 50, 1, 2, 2, 3, 5, 50]. (5 / 2 + 1.5 * 1 :: real) \<le> v} = {5, 50}"
    by auto
  have c: "{v \<in> set [1, 2, 3, 4, 5]. (4 + 1.5 * 2 :: real) < v} = {}"
    by auto
  have d1: "drawBoxplot_values
     \<lparr>data = [- 50, 1, 2, 2, 3, 5, 50], label = ''a'', units = ''cm'', sizeD = 7, medianD = 2\<rparr>
   = Inr \<lparr>medianValue = 2, quarterOneV = 3 / 2, quarterThreeV = 5 / 2, iqr = 1,
          lowerBound = 1, upperBound = 3, outliers = [- 50, 5, 50]\<rparr>"
    by (simp add: drawBoxplot_values_def quarterOne_def quarterThree_def
        value_before_threshold_def py_get_def py_int_def frac_def)
  have d2: "drawBoxplot_values
     \<lparr>data = [1, 2, 3, 4, 5], label = ''a'', units = ''cm'', sizeD = 5, medianD = 3\<rparr>
   = Inr \<lparr>medianValue = 3, quarterOneV = 2, quarterThreeV = 4, iqr = 2,
          lowerBound = 1, upperBound = 5, outliers = []\<rparr>"
    by (simp add: drawBoxplot_values_def quarterOne_def quarterThree_def
        value_before_threshold_def py_get_def py_int_def frac_def)
  show ?thesis unfolding a b c using d1 d2 by simp
qed



section \<open>The mapping from data to pixels\<close>

lemma set_dimensions_Inr:
  assumes "set_dimensions self window = Inr g"
  shows "maxY self \<noteq> minY self"
    and "\<not> categoricalXAxis self \<Longrightarrow> maxX self \<noteq> minX self"
    and "g = self\<lparr>width := Some (case width self of Some v \<Rightarrow> v | None \<Rightarrow> fst window),
                  height := Some (case height self of Some v \<Rightarrow> v | None \<Rightarrow> snd window),
                  effectiveX := effectiveX g, effectiveY := effectiveY g,
                  effectiveWidth := effectiveWidth g, effectiveHeight := effectiveHeight g,
                  graphX := graphX g, graphY := graphY g,
                  graphWidth := graphWidth g, graphHeight := graphHeight g,
                  originX := originX g, originY := originY g,
                  xScale := xScale g, yScale := yScale g, dimensionsSet := True\<rparr>"
    and "yScale g = graphHeight g / (maxY self - minY self)"
    and "originY g = graphY g + graphHeight g + yScale g * minY self"
    and "\<not> categoricalXAxis self \<Longrightarrow> xScale g = Some (graphWidth g / (maxX self - minX self))"
    and "\<not> categoricalXAxis self \<Longrightarrow>
           originX g = Some (graphX g - graphWidth g / (maxX self - minX self) * minX self)"
  using assms
  by (auto simp: set_dimensions_def Let_def py_div_def split: if_splits)


lemma set_dimensions_degenerate:
  "(\<not> categoricalXAxis self \<and> maxX self = minX self) \<or> maxY self = minY self \<Longrightarrow>
     set_dimensions self window = Inl ZeroDivisionError"
  by (auto simp: set_dimensions_def Let_def py_div_def)


lemma set_dimensions_example:
  "set_dimensions example_graph (0, 0) =
     Inr (example_graph\<lparr>effectiveWidth := 200, effectiveHeight := 100,
            graphX := 50, graphY := 25, graphWidth := 100, graphHeight := 50,
            originX := Some (- 50), originY := 100, xScale := Some 50, yScale := 25,
            dimensionsSet := True\<rparr>)"
  by (simp add: set_dimensions_def example_graph_def py_div_def)

text \<open>
  Claim C5, as amended. \<^verbatim>\<open>set_dimensions\<close> fails with \<^verbatim>\<open>ZeroDivisionError\<close> exactly when
  an axis range is degenerate, and a numeric x axis with \<^verbatim>\<open>maxX = 0\<close> is refused by the
  constructor. Otherwise the mapping is affine: the scale of an axis is the plot
  dimension divided by \<open>max - min\<close>; the x origin is \<open>graphX - xScale * minX\<close>, and the
  y origin is the bottom edge \<open>graphY + graphHeight\<close> plus \<open>yScale * minY\<close>, since y is
  inverted (\<open>pixelY = originY - yScale * value\<close>). The data value 0 lands on the origin,
  the minima land on the left and bottom edges of the plot and the maxima on the right
  and top edges, for any minima and maxima. When the plot has a non-zero width and
  height, the inverse \<open>(pixelX - originX) / xScale\<close>, \<open>(originY - pixelY) / yScale\<close> returns
  the data value. The counterexample shows a graph whose y origin is neither the bottom
  nor the top edge minus \<open>yScale * minY\<close>.
\<close>

theorem coordinate_mapping:
  "((\<not> categoricalXAxis self \<and> maxX self = minX self) \<or> maxY self = minY self \<longrightarrow>
       set_dimensions self window = Inl ZeroDivisionError)
   \<and> (\<not> categoricalXAxis self \<and> maxX self = 0 \<longrightarrow>
       Graph_init self primary border = Inl (ValueError MaxXNotProvided))
   \<and> (\<forall>g. set_dimensions self window = Inr g \<longrightarrow>
         maxY self \<noteq> minY self \<and>
         yScale g = graphHeight g / (maxY self - minY self) \<and>
         originY g = graphY g + graphHeight g + yScale g * minY self \<and>
         (\<not> categoricalXAxis self \<longrightarrow>
            maxX self \<noteq> minX self \<and>
            (\<exists>xs oX.
               xScale g = Some xs \<and> originX g = Some oX \<and>
               xs = graphWidth g / (maxX self - minX self) \<and>
               oX = graphX g - xs * minX self \<and>
               (\<forall>xv yv. point_position g xv yv = Inr (oX + xv * xs, originY g - yv * yScale g)) \<and>
               point_position g 0 0 = Inr (oX, originY g) \<and>
               point_position g (minX self) (minY self) = Inr (graphX g, graphY g + graphHeight g) \<and>
               point_position g (maxX self) (maxY self) = Inr (graphX g + graphWidth g, graphY g) \<and>
               (graphWidth g \<noteq> 0 \<and> graphHeight g \<noteq> 0 \<longrightarrow>
                  (\<forall>xv yv px py. point_position g xv yv = Inr (px, py) \<longrightarrow>
                     (px - oX) / xs = xv \<and> (originY g - py) / yScale g = yv)))))"
proof -
  have p1: "(\<not> categoricalXAxis self \<and> maxX self = minX self) \<or> maxY self = minY self \<longrightarrow>
       set_dimensions self window = Inl ZeroDivisionError"
    using set_dimensions_degenerate by blast
  have p2: "\<not> categoricalXAxis self \<and> maxX self = 0 \<longrightarrow>
       Graph_init self primary border = Inl (ValueError MaxXNotProvided)"
    by (simp add: Graph_init_def)
  have p3: "maxY self \<noteq> minY self \<and>
         yScale g = graphHeight g / (maxY self - minY self) \<and>
         originY g = graphY g + graphHeight g + yScale g * minY self \<and>
         (\<not> categoricalXAxis self \<longrightarrow>
            maxX self \<noteq> minX self \<and>
            (\<exists>xs oX.
               xScale g = Some xs \<and> originX g = Some oX \<and>
               xs = graphWidth g / (maxX self - minX self) \<and>
               oX = graphX g - xs * minX self \<and>
               (\<forall>xv yv. point_position g xv yv = Inr (oX + xv * xs, originY g - yv * yScale g)) \<and>
               point_position g 0 0 = Inr (oX, originY g) \<and>
               point_position g (minX self) (minY self) = Inr (graphX g, graphY g + graphHeight g) \<and>
               point_position g (maxX self) (maxY self) = Inr (graphX g + graphWidth g, graphY g) \<and>
               (graphWidth g \<noteq> 0 \<and> graphHeight g \<noteq> 0 \<longrightarrow>
                  (\<forall>xv yv px py. point_position g xv yv = Inr (px, py) \<longrightarrow>
                     (px - oX) / xs = xv \<and> (originY g - py) / yScale g = yv))))"
    if g: "set_dimensions self window = Inr g" for g
  proof -
    note f = set_dimensions_Inr [OF g]
    have ys: "maxY self - minY self \<noteq> 0" using f(1) by simp
    have num: "maxX self \<noteq> minX self \<and>
            (\<exists>xs oX.
               xScale g = Some xs \<and> originX g = Some oX \<and>
               xs = graphWidth g / (maxX self - minX self) \<and>
               oX = graphX g - xs * minX self \<and>
               (\<forall>xv yv. point_position g xv yv = Inr (oX + xv * xs, originY g - yv * yScale g)) \<and>
               point_position g 0 0 = Inr (oX, originY g) \<and>
               point_position g (minX self) (minY self) = Inr (graphX g, graphY g + graphHeight g) \<and>
               point_position g (maxX self) (maxY self) = Inr (graphX g + graphWidth g, graphY g) \<and>
               (graphWidth g \<noteq> 0 \<and> graphHeight g \<noteq> 0 \<longrightarrow>
                  (\<forall>xv yv px py. point_position g xv yv = Inr (px, py) \<longrightarrow>
                     (px - oX) / xs = xv \<and> (originY g - py) / yScale g = yv)))"
      if nc: "\<not> categoricalXAxis self"
    proof -
      define xs where "xs = graphWidth g / (maxX self - minX self)"
      define oX where "oX = graphX g - xs * minX self"
      have xd: "maxX self - minX self \<noteq> 0" using f(2) [OF nc] by simp
      have sx: "xScale g = Some xs" and so: "originX g = Some oX"
        using f(6) [OF nc] f(7) [OF nc] by (simp_all add: xs_def oX_def)
      have pp: "point_position g xv yv = Inr (oX + xv * xs, originY g - yv * yScale g)" for xv yv
        by (simp add: point_position_def sx so)
      have e1: "oX + minX self * xs = graphX g" by (simp add: oX_def)
      have "xs * (maxX self - minX self) = graphWidth g" using xd by (simp add: xs_def)
      then have e2: "oX + maxX self * xs = graphX g + graphWidth g"
        by (simp add: oX_def algebra_simps)
      have e3: "originY g - minY self * yScale g = graphY g + graphHeight g"
        by (simp add: f(5))
      have "yScale g * (maxY self - minY self) = graphHeight g" using ys by (simp add: f(4))
      then have e4: "originY g - maxY self * yScale g = graphY g"
        by (simp add: f(5) algebra_simps)
      have rt: "(px - oX) / xs = xv \<and> (originY g - py) / yScale g = yv"
        if nz: "graphWidth g \<noteq> 0 \<and> graphHeight g \<noteq> 0" and p: "point_position g xv yv = Inr (px, py)"
        for xv yv px py
      proof -
        have "xs \<noteq> 0" using nz xd by (simp add: xs_def)
        moreover have "yScale g \<noteq> 0" using nz ys by (simp add: f(4))
        moreover have "px = oX + xv * xs" "py = originY g - yv * yScale g"
          using p by (simp_all add: pp)
        ultimately show ?thesis by simp
      qed
      show ?thesis
        apply (intro conjI)
         apply (rule f(2) [OF nc])
        apply (rule exI [of _ xs], rule exI [of _ oX])
        using sx so pp e1 e2 e3 e4 rt by (simp add: xs_def oX_def)
    qed
    from f(1) f(4) f(5) num show ?thesis by blast
  qed
  from p1 p2 p3 show ?thesis by blast
qed

theorem coordinate_mapping_witness:
  "\<exists>g. set_dimensions example_graph (0, 0) = Inr g \<and>
       point_position g 2 1 = Inr (50, 75) \<and> point_position g 4 3 = Inr (150, 25) \<and>
       point_position g 0 0 = Inr (- 50, 100)"
proof -
  from set_dimensions_example obtain g where
    g: "set_dimensions example_graph (0, 0) = Inr g" and
    v: "graphX g = 50" "graphY g = 25" "graphWidth g = 100" "graphHeight g = 50"
       "originX g = Some (- 50)" "originY g = 100" by simp
  have nc: "\<not> categoricalXAxis example_graph" and
    m: "minX example_graph = 2" "minY example_graph = 1" "maxX example_graph = 4"
       "maxY example_graph = 3"
    by (simp_all add: example_graph_def)
  from coordinate_mapping [of example_graph "(0, 0)"] g nc
  obtain xs oX where "originX g = Some oX"
    "point_position g 0 0 = Inr (oX, originY g)"
    "point_position g (minX example_graph) (minY example_graph) = Inr (graphX g, graphY g + graphHeight g)"
    "point_position g (maxX example_graph) (maxY example_graph) = Inr (graphX g + graphWidth g, graphY g)"
    by blast
  then have "point_position g 2 1 = Inr (50, 75) \<and> point_position g 4 3 = Inr (150, 25) \<and>
       point_position g 0 0 = Inr (- 50, 100)"
    unfolding m v by simp
  with g show ?thesis by blast
qed

theorem coordinate_mapping_counterexample:
  "\<exists>g. set_dimensions example_graph (0, 0) = Inr g \<and>
       minY g = 1 \<and> yScale g = 25 \<and> graphY g = 25 \<and> graphHeight g = 50 \<and>
       originY g = 100 \<and>
       originY g \<noteq> (graphY g + graphHeight g) - yScale g * minY g \<and>
       originY g \<noteq> graphY g - yScale g * minY g"
  unfolding set_dimensions_example by (simp add: example_graph_def)

section \<open>The order of drawing and failing\<close>




lemma Graph_draw_not_Returned:
  "snd (snd (Graph_draw b window)) \<noteq> Returned \<Longrightarrow>
     snd (BoxplotGraph_draw b window) = snd (Graph_draw b window)"
  by (auto simp: BoxplotGraph_draw_def split: prod.splits outcome.splits sum.splits)

















end
